theory Spec2Isabelle
  imports Main "HOL-Library.Sublist"
begin

section \<open>The noxfile of spok: process state and recorded effects\<close>

text \<open>
  The noxfile is a straight-line script over three ambient things: the process
  environment (\<^verbatim>\<open>os.environ\<close>), the module globals computed when the file is
  imported, and the outside world it acts on through \<^verbatim>\<open>session.install\<close>,
  \<^verbatim>\<open>session.run\<close> and \<^verbatim>\<open>webbrowser.open\<close>. The model threads one record through
  every statement; each call the script issues is appended to \<open>calls\<close>, in order.
\<close>

type_synonym environ = "string \<rightharpoonup> string"

datatype action =
    Install "string list"
  | Run "string list" bool
  | Browser string

text \<open>
  \<open>Install args\<close> is \<^verbatim>\<open>session.install(*args)\<close>; \<open>Run args ext\<close> is
  \<^verbatim>\<open>session.run(*args, external=ext)\<close> (\<open>ext\<close> is \<open>False\<close> when the keyword is not
  given); \<open>Browser url\<close> is \<^verbatim>\<open>webbrowser.open(url=url)\<close>.
\<close>

datatype error = SessionQuit string | CommandFailed

text \<open>
  \<open>SessionQuit msg\<close> is what \<^verbatim>\<open>session.error(msg)\<close> raises; \<open>CommandFailed\<close> is
  what \<^verbatim>\<open>session.install\<close> and \<^verbatim>\<open>session.run\<close> raise when the command they
  invoked does not end with status 0. The noxfile catches neither, so either one
  ends the session at the statement that raised it.
\<close>

record proc =
  environ :: environ
  ON_CI :: bool
  options_sessions :: "string list"
  calls :: "action list"

type_synonym result = "(error + unit) \<times> proc"

text \<open>
  What the invoked tools do is not decided by the script: it is a parameter of every
  run. \<open>w a\<close> holds when the command \<open>a\<close>, once invoked, ends with status 0.
\<close>

type_synonym outcome = "action \<Rightarrow> bool"

subsection \<open>Python values\<close>

definition os_getenv :: "string \<Rightarrow> proc \<Rightarrow> string option" where
  "os_getenv key p = environ p key"

text \<open>Truth value of an \<^verbatim>\<open>Optional[str]\<close>: \<^verbatim>\<open>None\<close> and the empty string are false.\<close>

fun truthy :: "string option \<Rightarrow> bool" where
  "truthy None = False"
| "truthy (Some s) = (s \<noteq> [])"

text \<open>What an f-string field \<^verbatim>\<open>{token}\<close> prints for an \<^verbatim>\<open>Optional[str]\<close>.\<close>

fun format_field :: "string option \<Rightarrow> string" where
  "format_field None = ''None''"
| "format_field (Some s) = s"

subsection \<open>Module level\<close>

definition DOCS_DEPS :: "string list" where
  "DOCS_DEPS = [''mkdocs'', ''mkdocs-material'', ''mkdocs-include-markdown-plugin'']"

text \<open>
  Importing the noxfile in a process whose environment is \<open>env\<close>:
  \<^verbatim>\<open>ON_CI = bool(os.getenv("CI"))\<close> and \<^verbatim>\<open>nox.options.sessions = ("serve",)\<close>.
  Nothing has been invoked yet.
\<close>

definition noxfile :: "environ \<Rightarrow> proc" where
  "noxfile env =
     \<lparr>environ = env,
      ON_CI = truthy (env ''CI''),
      options_sessions = [''serve''],
      calls = []\<rparr>"

subsection \<open>The calls a session makes\<close>

text \<open>
  A call is recorded when it is issued. \<^verbatim>\<open>session.install\<close> and \<^verbatim>\<open>session.run\<close>
  return when the command succeeds and raise when it fails; \<^verbatim>\<open>webbrowser.open\<close>
  returns either way; \<^verbatim>\<open>session.error\<close> always raises.
\<close>

definition session_install :: "outcome \<Rightarrow> string list \<Rightarrow> proc \<Rightarrow> result" where
  "session_install w args p =
     (if w (Install args) then Inr () else Inl CommandFailed,
      p\<lparr>calls := calls p @ [Install args]\<rparr>)"

definition session_run :: "outcome \<Rightarrow> string list \<Rightarrow> bool \<Rightarrow> proc \<Rightarrow> result" where
  "session_run w args ext p =
     (if w (Run args ext) then Inr () else Inl CommandFailed,
      p\<lparr>calls := calls p @ [Run args ext]\<rparr>)"

definition webbrowser_open :: "string \<Rightarrow> proc \<Rightarrow> result" where
  "webbrowser_open url p = (Inr (), p\<lparr>calls := calls p @ [Browser url]\<rparr>)"

definition session_error :: "string \<Rightarrow> proc \<Rightarrow> result" where
  "session_error msg p = (Inl (SessionQuit msg), p)"

text \<open>
  One statement after another: the rest of the function body runs only when the
  statement before it returned.
\<close>

definition and_then :: "result \<Rightarrow> (proc \<Rightarrow> result) \<Rightarrow> result" where
  "and_then r rest = (case r of (Inl e, p) \<Rightarrow> (Inl e, p) | (Inr u, p) \<Rightarrow> rest p)"

subsection \<open>The three sessions\<close>

type_synonym session = "outcome \<Rightarrow> proc \<Rightarrow> result"

definition build :: session where
  "build w p0 =
     and_then (session_install w [''--upgrade'', ''pip'', ''setuptools'', ''wheel''] p0) (\<lambda>p1.
     and_then (session_install w DOCS_DEPS p1) (\<lambda>p2.
     session_run w [''mkdocs'', ''build'', ''--clean''] False p2))"

definition serve :: session where
  "serve w p0 =
     and_then (session_install w [''--upgrade'', ''pip'', ''setuptools'', ''wheel''] p0) (\<lambda>p1.
     and_then (session_install w DOCS_DEPS p1) (\<lambda>p2.
     and_then (webbrowser_open ''http://127.0.0.1:8000/spok/'' p2) (\<lambda>p3.
     session_run w [''mkdocs'', ''serve''] False p3)))"

definition publish :: session where
  "publish w p0 =
     (let token = os_getenv ''GITHUB_TOKEN'' p0 in
      if \<not> truthy token then
        session_error
          ''Cannot deploy docs without a $GITHUB_TOKEN environment variable'' p0
      else
        and_then (session_install w [''--upgrade'', ''pip'', ''setuptools'', ''wheel''] p0) (\<lambda>p1.
        and_then (session_install w DOCS_DEPS p1) (\<lambda>p2.
          if ON_CI p2 then
            and_then (session_run w
                       [''git'', ''remote'', ''add'', ''gh-token'',
                        ''https://'' @ format_field token
                          @ ''@github.com/FollowTheProcess/spok.git'']
                       True p2) (\<lambda>p3.
            and_then (session_run w [''git'', ''fetch'', ''gh-token''] True p3) (\<lambda>p4.
            and_then (session_run w
                       [''git'', ''fetch'', ''gh-token'', ''gh-pages:gh-pages''] True p4) (\<lambda>p5.
            session_run w
              [''mkdocs'', ''gh-deploy'', ''-v'', ''--clean'',
               ''--remote-name'', ''gh-token''] False p5)))
          else
            session_run w [''mkdocs'', ''gh-deploy''] False p2)))"

subsection \<open>The task runner\<close>

text \<open>
  The runner itself is the nox library, not part of the noxfile. What the noxfile
  gives it is the three functions decorated with \<^verbatim>\<open>@nox.session\<close>, registered under
  their names in definition order, and \<^verbatim>\<open>nox.options.sessions\<close>. The runner's
  documented rule is modelled here: it runs the sessions named on the command line,
  or those of \<^verbatim>\<open>nox.options.sessions\<close> when none is named; a name given more than
  once selects its session once; a name that is not registered ends the run with
  status 3 before any session starts; otherwise every selected session runs, in
  order, and the exit status is 0 when all of them succeeded and 1 when one of them
  failed.
\<close>

definition registered :: "(string \<times> session) list" where
  "registered = [(''build'', build), (''serve'', serve), (''publish'', publish)]"

definition selected_once :: "string list \<Rightarrow> string list" where
  "selected_once names = rev (remdups (rev names))"

fun collect :: "string list \<Rightarrow> session list option" where
  "collect [] = Some []"
| "collect (n # ns) =
     (case map_of registered n of
        None \<Rightarrow> None
      | Some f \<Rightarrow> (case collect ns of None \<Rightarrow> None | Some fs \<Rightarrow> Some (f # fs)))"

fun run_all :: "outcome \<Rightarrow> session list \<Rightarrow> proc \<Rightarrow> bool \<times> proc" where
  "run_all w [] p = (True, p)"
| "run_all w (f # fs) p =
     (case f w p of
        (r, p') \<Rightarrow> (case run_all w fs p' of (ok, p'') \<Rightarrow> (isl r = False \<and> ok, p'')))"

definition nox :: "outcome \<Rightarrow> string list option \<Rightarrow> environ \<Rightarrow> nat \<times> proc" where
  "nox w selection env =
     (let p = noxfile env;
          names = (case selection of None \<Rightarrow> options_sessions p | Some ns \<Rightarrow> ns)
      in case collect (selected_once names) of
           None \<Rightarrow> (3, p)
         | Some fs \<Rightarrow> (case run_all w fs p of (ok, p') \<Rightarrow> (if ok then 0 else 1, p')))"

subsection \<open>Reading a record of calls\<close>

fun is_install :: "action \<Rightarrow> bool" where
  "is_install (Install _) = True"
| "is_install _ = False"

fun is_browser :: "action \<Rightarrow> bool" where
  "is_browser (Browser _) = True"
| "is_browser _ = False"

text \<open>A call of the program named \<open>prog\<close> through \<^verbatim>\<open>session.run\<close>.\<close>

fun runs_program :: "string \<Rightarrow> action \<Rightarrow> bool" where
  "runs_program prog (Run (a # _) _) = (a = prog)"
| "runs_program prog _ = False"

text \<open>A call of subcommand \<open>sub\<close> of the program \<open>prog\<close>.\<close>

fun runs_subcommand :: "string \<Rightarrow> string \<Rightarrow> action \<Rightarrow> bool" where
  "runs_subcommand prog sub (Run (a # b # _) _) = (a = prog \<and> b = sub)"
| "runs_subcommand prog sub _ = False"

fun arguments :: "action \<Rightarrow> string list" where
  "arguments (Install args) = args"
| "arguments (Run args _) = args"
| "arguments (Browser url) = [url]"

text \<open>The calls made up to, and from, the first occurrence of \<open>a\<close>.\<close>

definition before :: "action \<Rightarrow> action list \<Rightarrow> action list" where
  "before a cs = takeWhile (\<lambda>c. c \<noteq> a) cs"

definition from_on :: "action \<Rightarrow> action list \<Rightarrow> action list" where
  "from_on a cs = dropWhile (\<lambda>c. c \<noteq> a) cs"

subsection \<open>Three outside worlds\<close>

text \<open>
  Every tool succeeds; every install fails (no network, say) and everything else
  succeeds; every \<^verbatim>\<open>git\<close> command fails (the remote exists already, say) and
  everything else succeeds.
\<close>

definition all_succeed :: outcome where
  "all_succeed a = True"

definition pip_fails :: outcome where
  "pip_fails a = (\<not> is_install a)"

definition git_fails :: outcome where
  "git_fails a = (\<not> runs_program ''git'' a)"

section \<open>What each session does, in closed form\<close>

lemmas statement_defs =
  and_then_def session_install_def session_run_def webbrowser_open_def
  session_error_def os_getenv_def

lemma build_calls:
  "calls (snd (build w p)) = calls p @
     (if w (Install [''--upgrade'', ''pip'', ''setuptools'', ''wheel'']) then
        if w (Install DOCS_DEPS) then
          [Install [''--upgrade'', ''pip'', ''setuptools'', ''wheel''],
           Install DOCS_DEPS,
           Run [''mkdocs'', ''build'', ''--clean''] False]
        else
          [Install [''--upgrade'', ''pip'', ''setuptools'', ''wheel''],
           Install DOCS_DEPS]
      else [Install [''--upgrade'', ''pip'', ''setuptools'', ''wheel'']])"
  by (simp add: build_def statement_defs)

lemma build_result:
  "fst (build w p) =
     (if w (Install [''--upgrade'', ''pip'', ''setuptools'', ''wheel''])
         \<and> w (Install DOCS_DEPS)
         \<and> w (Run [''mkdocs'', ''build'', ''--clean''] False)
      then Inr () else Inl CommandFailed)"
  by (simp add: build_def statement_defs)

lemma serve_calls:
  "calls (snd (serve w p)) = calls p @
     (if w (Install [''--upgrade'', ''pip'', ''setuptools'', ''wheel'']) then
        if w (Install DOCS_DEPS) then
          [Install [''--upgrade'', ''pip'', ''setuptools'', ''wheel''],
           Install DOCS_DEPS,
           Browser ''http://127.0.0.1:8000/spok/'',
           Run [''mkdocs'', ''serve''] False]
        else
          [Install [''--upgrade'', ''pip'', ''setuptools'', ''wheel''],
           Install DOCS_DEPS]
      else [Install [''--upgrade'', ''pip'', ''setuptools'', ''wheel'']])"
  by (simp add: serve_def statement_defs)

lemma serve_result:
  "fst (serve w p) =
     (if w (Install [''--upgrade'', ''pip'', ''setuptools'', ''wheel''])
         \<and> w (Install DOCS_DEPS)
         \<and> w (Run [''mkdocs'', ''serve''] False)
      then Inr () else Inl CommandFailed)"
  by (simp add: serve_def statement_defs)

lemma publish_quit:
  "\<not> truthy (environ p ''GITHUB_TOKEN'') \<Longrightarrow>
   publish w p =
     (Inl (SessionQuit
        ''Cannot deploy docs without a $GITHUB_TOKEN environment variable''), p)"
  by (simp add: publish_def statement_defs)

lemma publish_ci_calls:
  "environ p ''GITHUB_TOKEN'' = Some t \<Longrightarrow> t \<noteq> [] \<Longrightarrow> ON_CI p \<Longrightarrow>
   calls (snd (publish w p)) = calls p @
     (if \<not> w (Install [''--upgrade'', ''pip'', ''setuptools'', ''wheel'']) then
        [Install [''--upgrade'', ''pip'', ''setuptools'', ''wheel'']]
      else if \<not> w (Install DOCS_DEPS) then
        [Install [''--upgrade'', ''pip'', ''setuptools'', ''wheel''],
         Install DOCS_DEPS]
      else if \<not> w (Run [''git'', ''remote'', ''add'', ''gh-token'',
                   ''https://'' @ t @ ''@github.com/FollowTheProcess/spok.git''] True) then
        [Install [''--upgrade'', ''pip'', ''setuptools'', ''wheel''],
         Install DOCS_DEPS,
         Run [''git'', ''remote'', ''add'', ''gh-token'',
              ''https://'' @ t @ ''@github.com/FollowTheProcess/spok.git''] True]
      else if \<not> w (Run [''git'', ''fetch'', ''gh-token''] True) then
        [Install [''--upgrade'', ''pip'', ''setuptools'', ''wheel''],
         Install DOCS_DEPS,
         Run [''git'', ''remote'', ''add'', ''gh-token'',
              ''https://'' @ t @ ''@github.com/FollowTheProcess/spok.git''] True,
         Run [''git'', ''fetch'', ''gh-token''] True]
      else if \<not> w (Run [''git'', ''fetch'', ''gh-token'', ''gh-pages:gh-pages''] True) then
        [Install [''--upgrade'', ''pip'', ''setuptools'', ''wheel''],
         Install DOCS_DEPS,
         Run [''git'', ''remote'', ''add'', ''gh-token'',
              ''https://'' @ t @ ''@github.com/FollowTheProcess/spok.git''] True,
         Run [''git'', ''fetch'', ''gh-token''] True,
         Run [''git'', ''fetch'', ''gh-token'', ''gh-pages:gh-pages''] True]
      else
        [Install [''--upgrade'', ''pip'', ''setuptools'', ''wheel''],
         Install DOCS_DEPS,
         Run [''git'', ''remote'', ''add'', ''gh-token'',
              ''https://'' @ t @ ''@github.com/FollowTheProcess/spok.git''] True,
         Run [''git'', ''fetch'', ''gh-token''] True,
         Run [''git'', ''fetch'', ''gh-token'', ''gh-pages:gh-pages''] True,
         Run [''mkdocs'', ''gh-deploy'', ''-v'', ''--clean'',
              ''--remote-name'', ''gh-token''] False])"
  by (simp add: publish_def statement_defs)

lemma publish_ci_result:
  "environ p ''GITHUB_TOKEN'' = Some t \<Longrightarrow> t \<noteq> [] \<Longrightarrow> ON_CI p \<Longrightarrow>
   fst (publish w p) =
     (if w (Install [''--upgrade'', ''pip'', ''setuptools'', ''wheel''])
         \<and> w (Install DOCS_DEPS)
         \<and> w (Run [''git'', ''remote'', ''add'', ''gh-token'',
                  ''https://'' @ t @ ''@github.com/FollowTheProcess/spok.git''] True)
         \<and> w (Run [''git'', ''fetch'', ''gh-token''] True)
         \<and> w (Run [''git'', ''fetch'', ''gh-token'', ''gh-pages:gh-pages''] True)
         \<and> w (Run [''mkdocs'', ''gh-deploy'', ''-v'', ''--clean'',
                  ''--remote-name'', ''gh-token''] False)
      then Inr () else Inl CommandFailed)"
  by (simp add: publish_def statement_defs)

lemma publish_local_calls:
  "environ p ''GITHUB_TOKEN'' = Some t \<Longrightarrow> t \<noteq> [] \<Longrightarrow> \<not> ON_CI p \<Longrightarrow>
   calls (snd (publish w p)) = calls p @
     (if w (Install [''--upgrade'', ''pip'', ''setuptools'', ''wheel'']) then
        if w (Install DOCS_DEPS) then
          [Install [''--upgrade'', ''pip'', ''setuptools'', ''wheel''],
           Install DOCS_DEPS,
           Run [''mkdocs'', ''gh-deploy''] False]
        else
          [Install [''--upgrade'', ''pip'', ''setuptools'', ''wheel''],
           Install DOCS_DEPS]
      else [Install [''--upgrade'', ''pip'', ''setuptools'', ''wheel'']])"
  by (simp add: publish_def statement_defs)

lemma publish_local_result:
  "environ p ''GITHUB_TOKEN'' = Some t \<Longrightarrow> t \<noteq> [] \<Longrightarrow> \<not> ON_CI p \<Longrightarrow>
   fst (publish w p) =
     (if w (Install [''--upgrade'', ''pip'', ''setuptools'', ''wheel''])
         \<and> w (Install DOCS_DEPS)
         \<and> w (Run [''mkdocs'', ''gh-deploy''] False)
      then Inr () else Inl CommandFailed)"
  by (simp add: publish_def statement_defs)

lemma truthy_iff: "truthy v \<longleftrightarrow> (\<exists>s. v = Some s \<and> s \<noteq> [])"
  by (cases v) simp_all

lemma noxfile_simps:
  "environ (noxfile env) = env"
  "ON_CI (noxfile env) = truthy (env ''CI'')"
  "options_sessions (noxfile env) = [''serve'']"
  "calls (noxfile env) = []"
  by (simp_all add: noxfile_def)

lemma url_contains_token:
  "sublist t (''https://'' @ t @ ''@github.com/FollowTheProcess/spok.git'')"
  by (rule sublist_appendI)

section \<open>The publish session\<close>

text \<open>
  Throughout, ``the credential is present'' is read as the guard of \<open>publish\<close> reads
  it: \<^verbatim>\<open>GITHUB_TOKEN\<close> holds a non-empty string. ``The CI flag'' is the module
  global \<open>ON_CI\<close>. A variable that is set to the empty string is the subject of
  claims C3 and C4. Every statement holds for every outcome \<open>w\<close> of the invoked
  tools unless it names the commands that have to succeed.
\<close>

text \<open>
  Claim C1, as stated (with the credential present and the CI flag set, \<open>publish\<close>
  invokes add-remote, fetch-remote, fetch-branch and then the deploy command), fails
  in a run in which a command fails: when \<^verbatim>\<open>git remote add\<close> fails, the session
  ends there with \<open>CommandFailed\<close>, after three calls, and neither fetch nor the
  deploy command is invoked.
\<close>

theorem publish_ci_sequence_counterexample:
  "[''GITHUB_TOKEN'' \<mapsto> ''tok'', ''CI'' \<mapsto> ''true''] ''GITHUB_TOKEN'' = Some ''tok''
   \<and> ON_CI (noxfile [''GITHUB_TOKEN'' \<mapsto> ''tok'', ''CI'' \<mapsto> ''true''])
   \<and> calls (snd (publish git_fails
         (noxfile [''GITHUB_TOKEN'' \<mapsto> ''tok'', ''CI'' \<mapsto> ''true'']))) =
       [Install [''--upgrade'', ''pip'', ''setuptools'', ''wheel''],
        Install [''mkdocs'', ''mkdocs-material'', ''mkdocs-include-markdown-plugin''],
        Run [''git'', ''remote'', ''add'', ''gh-token'',
             ''https://tok@github.com/FollowTheProcess/spok.git''] True]
   \<and> fst (publish git_fails
         (noxfile [''GITHUB_TOKEN'' \<mapsto> ''tok'', ''CI'' \<mapsto> ''true''])) = Inl CommandFailed"
  by (simp add: publish_def statement_defs noxfile_def git_fails_def DOCS_DEPS_def)

text \<open>
  Claim C1, amended. In every environment in which the credential is present and the
  CI flag is set, the calls of \<open>publish\<close> are an initial segment of: the two
  installs, \<^verbatim>\<open>git remote add gh-token <url>\<close>, \<^verbatim>\<open>git fetch gh-token\<close>,
  \<^verbatim>\<open>git fetch gh-token gh-pages:gh-pages\<close>,
  \<^verbatim>\<open>mkdocs gh-deploy -v --clean --remote-name gh-token\<close>, in this order; they are
  the whole sequence when the two installs and the three \<^verbatim>\<open>git\<close> commands succeed;
  the URL of every \<^verbatim>\<open>git remote\<close> call made contains the credential value; and
  \<open>publish\<close> returns normally exactly when all six commands succeed.
\<close>

theorem publish_ci_sequence:
  assumes "env ''GITHUB_TOKEN'' = Some t" and "t \<noteq> []" and "ON_CI (noxfile env)"
  shows "prefix (calls (snd (publish w (noxfile env))))
           [Install [''--upgrade'', ''pip'', ''setuptools'', ''wheel''],
            Install DOCS_DEPS,
            Run [''git'', ''remote'', ''add'', ''gh-token'',
                 ''https://'' @ t @ ''@github.com/FollowTheProcess/spok.git''] True,
            Run [''git'', ''fetch'', ''gh-token''] True,
            Run [''git'', ''fetch'', ''gh-token'', ''gh-pages:gh-pages''] True,
            Run [''mkdocs'', ''gh-deploy'', ''-v'', ''--clean'',
                 ''--remote-name'', ''gh-token''] False]
       \<and> (w (Install [''--upgrade'', ''pip'', ''setuptools'', ''wheel''])
            \<and> w (Install DOCS_DEPS)
            \<and> w (Run [''git'', ''remote'', ''add'', ''gh-token'',
                     ''https://'' @ t @ ''@github.com/FollowTheProcess/spok.git''] True)
            \<and> w (Run [''git'', ''fetch'', ''gh-token''] True)
            \<and> w (Run [''git'', ''fetch'', ''gh-token'', ''gh-pages:gh-pages''] True)
          \<longrightarrow> calls (snd (publish w (noxfile env))) =
           [Install [''--upgrade'', ''pip'', ''setuptools'', ''wheel''],
            Install DOCS_DEPS,
            Run [''git'', ''remote'', ''add'', ''gh-token'',
                 ''https://'' @ t @ ''@github.com/FollowTheProcess/spok.git''] True,
            Run [''git'', ''fetch'', ''gh-token''] True,
            Run [''git'', ''fetch'', ''gh-token'', ''gh-pages:gh-pages''] True,
            Run [''mkdocs'', ''gh-deploy'', ''-v'', ''--clean'',
                 ''--remote-name'', ''gh-token''] False])
       \<and> list_all (\<lambda>a. runs_subcommand ''git'' ''remote'' a \<longrightarrow> sublist t (last (arguments a)))
           (calls (snd (publish w (noxfile env))))
       \<and> (fst (publish w (noxfile env)) = Inr () \<longleftrightarrow>
            w (Install [''--upgrade'', ''pip'', ''setuptools'', ''wheel''])
            \<and> w (Install DOCS_DEPS)
            \<and> w (Run [''git'', ''remote'', ''add'', ''gh-token'',
                     ''https://'' @ t @ ''@github.com/FollowTheProcess/spok.git''] True)
            \<and> w (Run [''git'', ''fetch'', ''gh-token''] True)
            \<and> w (Run [''git'', ''fetch'', ''gh-token'', ''gh-pages:gh-pages''] True)
            \<and> w (Run [''mkdocs'', ''gh-deploy'', ''-v'', ''--clean'',
                     ''--remote-name'', ''gh-token''] False))"
proof -
  have tok: "environ (noxfile env) ''GITHUB_TOKEN'' = Some t"
    using assms(1) by (simp add: noxfile_simps)
  note c = publish_ci_calls [OF tok assms(2) assms(3), of w]
  note r = publish_ci_result [OF tok assms(2) assms(3), of w]
  have 1: "prefix (calls (snd (publish w (noxfile env))))
           [Install [''--upgrade'', ''pip'', ''setuptools'', ''wheel''],
            Install DOCS_DEPS,
            Run [''git'', ''remote'', ''add'', ''gh-token'',
                 ''https://'' @ t @ ''@github.com/FollowTheProcess/spok.git''] True,
            Run [''git'', ''fetch'', ''gh-token''] True,
            Run [''git'', ''fetch'', ''gh-token'', ''gh-pages:gh-pages''] True,
            Run [''mkdocs'', ''gh-deploy'', ''-v'', ''--clean'',
                 ''--remote-name'', ''gh-token''] False]"
    by (simp add: c noxfile_simps)
  have 2: "w (Install [''--upgrade'', ''pip'', ''setuptools'', ''wheel''])
            \<and> w (Install DOCS_DEPS)
            \<and> w (Run [''git'', ''remote'', ''add'', ''gh-token'',
                     ''https://'' @ t @ ''@github.com/FollowTheProcess/spok.git''] True)
            \<and> w (Run [''git'', ''fetch'', ''gh-token''] True)
            \<and> w (Run [''git'', ''fetch'', ''gh-token'', ''gh-pages:gh-pages''] True)
          \<longrightarrow> calls (snd (publish w (noxfile env))) =
           [Install [''--upgrade'', ''pip'', ''setuptools'', ''wheel''],
            Install DOCS_DEPS,
            Run [''git'', ''remote'', ''add'', ''gh-token'',
                 ''https://'' @ t @ ''@github.com/FollowTheProcess/spok.git''] True,
            Run [''git'', ''fetch'', ''gh-token''] True,
            Run [''git'', ''fetch'', ''gh-token'', ''gh-pages:gh-pages''] True,
            Run [''mkdocs'', ''gh-deploy'', ''-v'', ''--clean'',
                 ''--remote-name'', ''gh-token''] False]"
    by (simp add: c noxfile_simps)
  have 3: "list_all (\<lambda>a. runs_subcommand ''git'' ''remote'' a \<longrightarrow> sublist t (last (arguments a)))
           (calls (snd (publish w (noxfile env))))"
    using url_contains_token [of t] by (simp add: c noxfile_simps)
  have 4: "fst (publish w (noxfile env)) = Inr () \<longleftrightarrow>
            w (Install [''--upgrade'', ''pip'', ''setuptools'', ''wheel''])
            \<and> w (Install DOCS_DEPS)
            \<and> w (Run [''git'', ''remote'', ''add'', ''gh-token'',
                     ''https://'' @ t @ ''@github.com/FollowTheProcess/spok.git''] True)
            \<and> w (Run [''git'', ''fetch'', ''gh-token''] True)
            \<and> w (Run [''git'', ''fetch'', ''gh-token'', ''gh-pages:gh-pages''] True)
            \<and> w (Run [''mkdocs'', ''gh-deploy'', ''-v'', ''--clean'',
                     ''--remote-name'', ''gh-token''] False)"
    by (simp add: r)
  from 1 2 3 4 show ?thesis by blast
qed

theorem publish_ci_sequence_witness:
  "[''GITHUB_TOKEN'' \<mapsto> ''s3cret'', ''CI'' \<mapsto> ''true''] ''GITHUB_TOKEN'' = Some ''s3cret''
   \<and> ''s3cret'' \<noteq> []
   \<and> ON_CI (noxfile [''GITHUB_TOKEN'' \<mapsto> ''s3cret'', ''CI'' \<mapsto> ''true''])
   \<and> all_succeed (Install [''--upgrade'', ''pip'', ''setuptools'', ''wheel''])
   \<and> all_succeed (Install DOCS_DEPS)
   \<and> all_succeed (Run [''git'', ''remote'', ''add'', ''gh-token'',
         ''https://s3cret@github.com/FollowTheProcess/spok.git''] True)
   \<and> all_succeed (Run [''git'', ''fetch'', ''gh-token''] True)
   \<and> all_succeed (Run [''git'', ''fetch'', ''gh-token'', ''gh-pages:gh-pages''] True)
   \<and> calls (snd (publish all_succeed
         (noxfile [''GITHUB_TOKEN'' \<mapsto> ''s3cret'', ''CI'' \<mapsto> ''true'']))) =
       [Install [''--upgrade'', ''pip'', ''setuptools'', ''wheel''],
        Install [''mkdocs'', ''mkdocs-material'', ''mkdocs-include-markdown-plugin''],
        Run [''git'', ''remote'', ''add'', ''gh-token'',
             ''https://s3cret@github.com/FollowTheProcess/spok.git''] True,
        Run [''git'', ''fetch'', ''gh-token''] True,
        Run [''git'', ''fetch'', ''gh-token'', ''gh-pages:gh-pages''] True,
        Run [''mkdocs'', ''gh-deploy'', ''-v'', ''--clean'',
             ''--remote-name'', ''gh-token''] False]
   \<and> fst (publish all_succeed
         (noxfile [''GITHUB_TOKEN'' \<mapsto> ''s3cret'', ''CI'' \<mapsto> ''true''])) = Inr ()"
proof -
  let ?e = "[''GITHUB_TOKEN'' \<mapsto> ''s3cret'', ''CI'' \<mapsto> ''true'']"
  have h1: "?e ''GITHUB_TOKEN'' = Some ''s3cret''" by simp
  have h2: "''s3cret'' \<noteq> []" by simp
  have h3: "ON_CI (noxfile ?e)" by (simp add: noxfile_def)
  from publish_ci_sequence [of ?e "''s3cret''" all_succeed, OF h1 h2 h3] h1 h2 h3
  show ?thesis by (simp add: all_succeed_def DOCS_DEPS_def)
qed

text \<open>
  Claim C2. In every environment in which the credential is not present
  (\<^verbatim>\<open>GITHUB_TOKEN\<close> unset, or set to the empty string), \<open>publish\<close> ends at once
  with the error \<^verbatim>\<open>Cannot deploy docs without a $GITHUB_TOKEN environment variable\<close>,
  leaves the process as it found it and has invoked nothing: no installer, no site
  generator, no version-control command. Run through the task runner, the exit
  status is 1 and still nothing has been invoked.
\<close>

theorem publish_without_credential:
  assumes "env ''GITHUB_TOKEN'' = None \<or> env ''GITHUB_TOKEN'' = Some []"
  shows "publish w (noxfile env) =
           (Inl (SessionQuit
              ''Cannot deploy docs without a $GITHUB_TOKEN environment variable''),
            noxfile env)
       \<and> calls (snd (publish w (noxfile env))) = []
       \<and> fst (nox w (Some [''publish'']) env) = 1
       \<and> calls (snd (nox w (Some [''publish'']) env)) = []"
proof -
  have "\<not> truthy (environ (noxfile env) ''GITHUB_TOKEN'')"
    using assms by (auto simp: noxfile_simps)
  from publish_quit [OF this, of w] show ?thesis
    by (simp add: nox_def selected_once_def registered_def noxfile_simps)
qed

theorem publish_without_credential_witness:
  "(Map.empty :: environ) ''GITHUB_TOKEN'' = None
   \<and> publish pip_fails (noxfile Map.empty) =
       (Inl (SessionQuit
          ''Cannot deploy docs without a $GITHUB_TOKEN environment variable''),
        noxfile Map.empty)
   \<and> calls (snd (publish pip_fails (noxfile Map.empty))) = []
   \<and> fst (nox pip_fails (Some [''publish'']) Map.empty) = 1"
proof -
  have h: "(Map.empty :: environ) ''GITHUB_TOKEN'' = None
           \<or> (Map.empty :: environ) ''GITHUB_TOKEN'' = Some []"
    by simp
  from publish_without_credential [of Map.empty pip_fails, OF h] show ?thesis
    by (simp add: noxfile_simps)
qed

text \<open>
  Claim C3, as stated (the precondition failure occurs if and only if
  \<^verbatim>\<open>GITHUB_TOKEN\<close> is not set), fails: with the variable set to the empty string
  \<open>publish\<close> ends with the precondition error although the variable is set.
\<close>

theorem publish_precondition_counterexample:
  "[''GITHUB_TOKEN'' \<mapsto> ''''] ''GITHUB_TOKEN'' \<noteq> None
   \<and> fst (publish all_succeed (noxfile [''GITHUB_TOKEN'' \<mapsto> ''''])) =
       Inl (SessionQuit
          ''Cannot deploy docs without a $GITHUB_TOKEN environment variable'')"
  by (simp add: publish_def statement_defs noxfile_def)

text \<open>
  Claim C3, amended. \<open>publish\<close> ends with the precondition error if and only if
  \<^verbatim>\<open>GITHUB_TOKEN\<close> is unset or set to the empty string.
\<close>

theorem publish_precondition_iff:
  "fst (publish w (noxfile env)) =
     Inl (SessionQuit
        ''Cannot deploy docs without a $GITHUB_TOKEN environment variable'')
   \<longleftrightarrow> env ''GITHUB_TOKEN'' = None \<or> env ''GITHUB_TOKEN'' = Some []"
proof (cases "truthy (env ''GITHUB_TOKEN'')")
  case False
  then have "\<not> truthy (environ (noxfile env) ''GITHUB_TOKEN'')"
    by (simp add: noxfile_simps)
  from publish_quit [OF this, of w] False show ?thesis
    by (cases "env ''GITHUB_TOKEN''") simp_all
next
  case True
  then obtain t where t: "env ''GITHUB_TOKEN'' = Some t" "t \<noteq> []"
    by (auto simp: truthy_iff)
  then have tok: "environ (noxfile env) ''GITHUB_TOKEN'' = Some t"
    by (simp add: noxfile_simps)
  show ?thesis
  proof (cases "ON_CI (noxfile env)")
    case True
    from publish_ci_result [OF tok t(2) True, of w] t show ?thesis by simp
  next
    case False
    from publish_local_result [OF tok t(2) False, of w] t show ?thesis by simp
  qed
qed

theorem publish_precondition_iff_witness:
  "fst (publish all_succeed (noxfile [''GITHUB_TOKEN'' \<mapsto> ''tok''])) \<noteq>
     Inl (SessionQuit
        ''Cannot deploy docs without a $GITHUB_TOKEN environment variable'')
   \<and> fst (publish all_succeed (noxfile Map.empty)) =
       Inl (SessionQuit
          ''Cannot deploy docs without a $GITHUB_TOKEN environment variable'')"
  using publish_precondition_iff [of all_succeed "[''GITHUB_TOKEN'' \<mapsto> ''tok'']"]
        publish_precondition_iff [of all_succeed Map.empty]
  by simp

text \<open>
  Claim C4, as stated (in every environment \<open>publish\<close> takes the CI branch if and
  only if the \<^verbatim>\<open>CI\<close> variable is set), fails. With \<^verbatim>\<open>CI\<close> set to the empty
  string and a credential present, the variable is set and \<open>publish\<close> takes the
  other branch: it runs the plain \<^verbatim>\<open>mkdocs gh-deploy\<close>. With \<^verbatim>\<open>CI\<close> set and no
  credential, \<open>publish\<close> ends before the branch and invokes nothing. With \<^verbatim>\<open>CI\<close>
  set, a credential present and the first install failing, \<open>publish\<close> ends before
  the branch as well.
\<close>

theorem ci_branch_counterexample:
  "[''GITHUB_TOKEN'' \<mapsto> ''tok'', ''CI'' \<mapsto> ''''] ''CI'' \<noteq> None
   \<and> calls (snd (publish all_succeed
         (noxfile [''GITHUB_TOKEN'' \<mapsto> ''tok'', ''CI'' \<mapsto> '''']))) =
       [Install [''--upgrade'', ''pip'', ''setuptools'', ''wheel''],
        Install [''mkdocs'', ''mkdocs-material'', ''mkdocs-include-markdown-plugin''],
        Run [''mkdocs'', ''gh-deploy''] False]
   \<and> [''CI'' \<mapsto> ''true''] ''CI'' \<noteq> None
   \<and> calls (snd (publish all_succeed (noxfile [''CI'' \<mapsto> ''true'']))) = []
   \<and> calls (snd (publish pip_fails
         (noxfile [''GITHUB_TOKEN'' \<mapsto> ''tok'', ''CI'' \<mapsto> ''true'']))) =
       [Install [''--upgrade'', ''pip'', ''setuptools'', ''wheel'']]"
  by (simp add: publish_def statement_defs noxfile_def all_succeed_def pip_fails_def
        DOCS_DEPS_def)

text \<open>
  Claim C4, amended. In every environment in which the credential is present,
  \<open>ON_CI\<close> is true if and only if \<^verbatim>\<open>CI\<close> is set to a non-empty string; a
  \<^verbatim>\<open>git\<close> command is invoked only if it is, and the plain \<^verbatim>\<open>mkdocs gh-deploy\<close>
  only if it is not; and in every run in which the two installs succeed, \<open>publish\<close>
  takes the CI branch (it invokes \<^verbatim>\<open>git remote add\<close>) if and only if \<^verbatim>\<open>CI\<close> is
  set to a non-empty string, and invokes the plain deploy command if and only if it
  is not.
\<close>

theorem ci_branch_iff:
  assumes "env ''GITHUB_TOKEN'' = Some t" and "t \<noteq> []"
  shows "(ON_CI (noxfile env) \<longleftrightarrow> (\<exists>v. env ''CI'' = Some v \<and> v \<noteq> []))
       \<and> (filter (runs_program ''git'') (calls (snd (publish w (noxfile env)))) \<noteq> []
            \<longrightarrow> (\<exists>v. env ''CI'' = Some v \<and> v \<noteq> []))
       \<and> (Run [''mkdocs'', ''gh-deploy''] False \<in> set (calls (snd (publish w (noxfile env))))
            \<longrightarrow> \<not> (\<exists>v. env ''CI'' = Some v \<and> v \<noteq> []))
       \<and> (w (Install [''--upgrade'', ''pip'', ''setuptools'', ''wheel''])
            \<and> w (Install DOCS_DEPS)
          \<longrightarrow>
            (Run [''git'', ''remote'', ''add'', ''gh-token'',
                  ''https://'' @ t @ ''@github.com/FollowTheProcess/spok.git''] True
               \<in> set (calls (snd (publish w (noxfile env))))
              \<longleftrightarrow> (\<exists>v. env ''CI'' = Some v \<and> v \<noteq> []))
            \<and> (filter (runs_program ''git'') (calls (snd (publish w (noxfile env)))) \<noteq> []
              \<longleftrightarrow> (\<exists>v. env ''CI'' = Some v \<and> v \<noteq> []))
            \<and> (Run [''mkdocs'', ''gh-deploy''] False
               \<in> set (calls (snd (publish w (noxfile env))))
              \<longleftrightarrow> \<not> (\<exists>v. env ''CI'' = Some v \<and> v \<noteq> [])))"
proof -
  have tok: "environ (noxfile env) ''GITHUB_TOKEN'' = Some t"
    using assms(1) by (simp add: noxfile_simps)
  have flag: "ON_CI (noxfile env) \<longleftrightarrow> (\<exists>v. env ''CI'' = Some v \<and> v \<noteq> [])"
    by (simp add: noxfile_simps truthy_iff)
  show ?thesis
  proof (cases "ON_CI (noxfile env)")
    case True
    from publish_ci_calls [OF tok assms(2) True, of w] flag True
    show ?thesis by (simp add: noxfile_simps)
  next
    case False
    from publish_local_calls [OF tok assms(2) False, of w] flag False
    show ?thesis by (simp add: noxfile_simps)
  qed
qed

theorem ci_branch_iff_witness:
  "[''GITHUB_TOKEN'' \<mapsto> ''tok'', ''CI'' \<mapsto> ''1''] ''GITHUB_TOKEN'' = Some ''tok''
   \<and> ''tok'' \<noteq> []
   \<and> all_succeed (Install [''--upgrade'', ''pip'', ''setuptools'', ''wheel''])
   \<and> all_succeed (Install DOCS_DEPS)
   \<and> ON_CI (noxfile [''GITHUB_TOKEN'' \<mapsto> ''tok'', ''CI'' \<mapsto> ''1''])
   \<and> Run [''git'', ''remote'', ''add'', ''gh-token'',
          ''https://tok@github.com/FollowTheProcess/spok.git''] True
        \<in> set (calls (snd (publish all_succeed
              (noxfile [''GITHUB_TOKEN'' \<mapsto> ''tok'', ''CI'' \<mapsto> ''1'']))))
   \<and> Run [''mkdocs'', ''gh-deploy''] False
        \<notin> set (calls (snd (publish all_succeed
              (noxfile [''GITHUB_TOKEN'' \<mapsto> ''tok'', ''CI'' \<mapsto> ''1'']))))"
proof -
  let ?e = "[''GITHUB_TOKEN'' \<mapsto> ''tok'', ''CI'' \<mapsto> ''1'']"
  have h1: "?e ''GITHUB_TOKEN'' = Some ''tok''" by simp
  have h2: "''tok'' \<noteq> []" by simp
  have h3: "all_succeed (Install [''--upgrade'', ''pip'', ''setuptools'', ''wheel''])"
    by (simp add: all_succeed_def)
  have h4: "all_succeed (Install DOCS_DEPS)"
    by (simp add: all_succeed_def)
  have v: "\<exists>v. ?e ''CI'' = Some v \<and> v \<noteq> []" by simp
  from ci_branch_iff [of ?e "''tok''" all_succeed, OF h1 h2] h3 h4
  have "ON_CI (noxfile ?e)"
    and "Run [''git'', ''remote'', ''add'', ''gh-token'',
          ''https://'' @ ''tok'' @ ''@github.com/FollowTheProcess/spok.git''] True
        \<in> set (calls (snd (publish all_succeed (noxfile ?e))))"
    and "Run [''mkdocs'', ''gh-deploy''] False
        \<notin> set (calls (snd (publish all_succeed (noxfile ?e))))"
    using v by blast+
  with h1 h2 h3 h4 show ?thesis by simp
qed

text \<open>
  Claim C5, as stated (with the credential present and the CI flag unset, \<open>publish\<close>
  invokes exactly one deploy-type command), fails in a run in which an install
  fails: the session ends at the first install and no deploy command is invoked.
\<close>

theorem publish_local_deploy_counterexample:
  "[''GITHUB_TOKEN'' \<mapsto> ''tok''] ''GITHUB_TOKEN'' = Some ''tok''
   \<and> \<not> ON_CI (noxfile [''GITHUB_TOKEN'' \<mapsto> ''tok''])
   \<and> calls (snd (publish pip_fails (noxfile [''GITHUB_TOKEN'' \<mapsto> ''tok'']))) =
       [Install [''--upgrade'', ''pip'', ''setuptools'', ''wheel'']]
   \<and> filter (runs_subcommand ''mkdocs'' ''gh-deploy'')
       (calls (snd (publish pip_fails (noxfile [''GITHUB_TOKEN'' \<mapsto> ''tok''])))) = []"
  by (simp add: publish_def statement_defs noxfile_def pip_fails_def)

text \<open>
  Claim C5, amended. In every environment in which the credential is present and the
  CI flag is unset, the calls of \<open>publish\<close> are an initial segment of: the two
  installs, \<^verbatim>\<open>mkdocs gh-deploy\<close>; so at most one deploy command is invoked, and it
  has no further argument; no call carries \<^verbatim>\<open>--remote-name\<close> and no \<^verbatim>\<open>git\<close>
  command is invoked; when the two installs succeed, exactly one deploy command is
  invoked; and \<open>publish\<close> returns normally exactly when all three commands
  succeed.
\<close>

theorem publish_local_deploy:
  assumes "env ''GITHUB_TOKEN'' = Some t" and "t \<noteq> []" and "\<not> ON_CI (noxfile env)"
  shows "prefix (calls (snd (publish w (noxfile env))))
           [Install [''--upgrade'', ''pip'', ''setuptools'', ''wheel''],
            Install DOCS_DEPS,
            Run [''mkdocs'', ''gh-deploy''] False]
       \<and> prefix (filter (runs_subcommand ''mkdocs'' ''gh-deploy'')
                  (calls (snd (publish w (noxfile env)))))
           [Run [''mkdocs'', ''gh-deploy''] False]
       \<and> filter (\<lambda>c. ''--remote-name'' \<in> set (arguments c))
           (calls (snd (publish w (noxfile env)))) = []
       \<and> filter (runs_program ''git'') (calls (snd (publish w (noxfile env)))) = []
       \<and> (w (Install [''--upgrade'', ''pip'', ''setuptools'', ''wheel''])
            \<and> w (Install DOCS_DEPS)
          \<longrightarrow> calls (snd (publish w (noxfile env))) =
                [Install [''--upgrade'', ''pip'', ''setuptools'', ''wheel''],
                 Install DOCS_DEPS,
                 Run [''mkdocs'', ''gh-deploy''] False]
              \<and> filter (runs_subcommand ''mkdocs'' ''gh-deploy'')
                  (calls (snd (publish w (noxfile env)))) =
                [Run [''mkdocs'', ''gh-deploy''] False])
       \<and> (fst (publish w (noxfile env)) = Inr () \<longleftrightarrow>
            w (Install [''--upgrade'', ''pip'', ''setuptools'', ''wheel''])
            \<and> w (Install DOCS_DEPS)
            \<and> w (Run [''mkdocs'', ''gh-deploy''] False))"
proof -
  have tok: "environ (noxfile env) ''GITHUB_TOKEN'' = Some t"
    using assms(1) by (simp add: noxfile_simps)
  from publish_local_calls [OF tok assms(2) assms(3), of w]
       publish_local_result [OF tok assms(2) assms(3), of w]
  show ?thesis by (simp add: noxfile_simps DOCS_DEPS_def)
qed

theorem publish_local_deploy_witness:
  "[''GITHUB_TOKEN'' \<mapsto> ''tok''] ''GITHUB_TOKEN'' = Some ''tok''
   \<and> ''tok'' \<noteq> []
   \<and> \<not> ON_CI (noxfile [''GITHUB_TOKEN'' \<mapsto> ''tok''])
   \<and> all_succeed (Install [''--upgrade'', ''pip'', ''setuptools'', ''wheel''])
   \<and> all_succeed (Install DOCS_DEPS)
   \<and> calls (snd (publish all_succeed (noxfile [''GITHUB_TOKEN'' \<mapsto> ''tok'']))) =
       [Install [''--upgrade'', ''pip'', ''setuptools'', ''wheel''],
        Install [''mkdocs'', ''mkdocs-material'', ''mkdocs-include-markdown-plugin''],
        Run [''mkdocs'', ''gh-deploy''] False]
   \<and> filter (runs_subcommand ''mkdocs'' ''gh-deploy'')
       (calls (snd (publish all_succeed (noxfile [''GITHUB_TOKEN'' \<mapsto> ''tok''])))) =
       [Run [''mkdocs'', ''gh-deploy''] False]"
proof -
  let ?e = "[''GITHUB_TOKEN'' \<mapsto> ''tok'']"
  have h1: "?e ''GITHUB_TOKEN'' = Some ''tok''" by simp
  have h2: "''tok'' \<noteq> []" by simp
  have h3: "\<not> ON_CI (noxfile ?e)" by (simp add: noxfile_def)
  have h4: "all_succeed (Install [''--upgrade'', ''pip'', ''setuptools'', ''wheel''])
            \<and> all_succeed (Install DOCS_DEPS)"
    by (simp add: all_succeed_def)
  from publish_local_deploy [of ?e "''tok''" all_succeed, OF h1 h2 h3] h4
  have "calls (snd (publish all_succeed (noxfile ?e))) =
          [Install [''--upgrade'', ''pip'', ''setuptools'', ''wheel''],
           Install DOCS_DEPS,
           Run [''mkdocs'', ''gh-deploy''] False]"
    and "filter (runs_subcommand ''mkdocs'' ''gh-deploy'')
          (calls (snd (publish all_succeed (noxfile ?e)))) =
          [Run [''mkdocs'', ''gh-deploy''] False]"
    by blast+
  with h1 h2 h3 h4 show ?thesis by (simp add: DOCS_DEPS_def)
qed

section \<open>Properties shared by the sessions\<close>

text \<open>
  Claim C6. For \<open>build\<close>, for \<open>serve\<close>, and for \<open>publish\<close> when the credential is
  present: the install calls made are an initial segment of the tooling upgrade
  followed by the documentation-dependency step, whose arguments are the fixed list
  \<open>DOCS_DEPS\<close> of three package names (\<^verbatim>\<open>mkdocs\<close>, \<^verbatim>\<open>mkdocs-material\<close>,
  \<^verbatim>\<open>mkdocs-include-markdown-plugin\<close>, in this order); no \<^verbatim>\<open>mkdocs\<close> command is
  invoked before that step; and the step is made, with both installs in place,
  whenever the tooling upgrade succeeds.
\<close>

theorem docs_deps_installed_first:
  assumes "task = build \<or> task = serve
           \<or> (task = publish \<and> (\<exists>t. env ''GITHUB_TOKEN'' = Some t \<and> t \<noteq> []))"
  shows "prefix (map arguments (filter is_install (calls (snd (task w (noxfile env))))))
           [[''--upgrade'', ''pip'', ''setuptools'', ''wheel''],
            [''mkdocs'', ''mkdocs-material'', ''mkdocs-include-markdown-plugin'']]
       \<and> filter (runs_program ''mkdocs'')
           (before (Install DOCS_DEPS) (calls (snd (task w (noxfile env))))) = []
       \<and> (w (Install [''--upgrade'', ''pip'', ''setuptools'', ''wheel''])
          \<longrightarrow> Install DOCS_DEPS \<in> set (calls (snd (task w (noxfile env))))
              \<and> map arguments (filter is_install (calls (snd (task w (noxfile env))))) =
                 [[''--upgrade'', ''pip'', ''setuptools'', ''wheel''],
                  [''mkdocs'', ''mkdocs-material'', ''mkdocs-include-markdown-plugin'']])
       \<and> DOCS_DEPS = [''mkdocs'', ''mkdocs-material'', ''mkdocs-include-markdown-plugin'']
       \<and> length DOCS_DEPS = 3"
  using assms
proof (elim disjE conjE exE)
  assume "task = build"
  then show ?thesis
    by (simp add: build_calls noxfile_simps before_def) (simp add: DOCS_DEPS_def)
next
  assume "task = serve"
  then show ?thesis
    by (simp add: serve_calls noxfile_simps before_def) (simp add: DOCS_DEPS_def)
next
  fix t
  assume task: "task = publish" and t: "env ''GITHUB_TOKEN'' = Some t" "t \<noteq> []"
  have tok: "environ (noxfile env) ''GITHUB_TOKEN'' = Some t"
    using t(1) by (simp add: noxfile_simps)
  show ?thesis
  proof (cases "ON_CI (noxfile env)")
    case True
    from publish_ci_calls [OF tok t(2) True, of w] task show ?thesis
      by (simp add: noxfile_simps before_def) (simp add: DOCS_DEPS_def)
  next
    case False
    from publish_local_calls [OF tok t(2) False, of w] task show ?thesis
      by (simp add: noxfile_simps before_def) (simp add: DOCS_DEPS_def)
  qed
qed

theorem docs_deps_installed_first_witness:
  "all_succeed (Install [''--upgrade'', ''pip'', ''setuptools'', ''wheel''])
   \<and> map arguments (filter is_install (calls (snd (build all_succeed (noxfile Map.empty))))) =
     [[''--upgrade'', ''pip'', ''setuptools'', ''wheel''],
      [''mkdocs'', ''mkdocs-material'', ''mkdocs-include-markdown-plugin'']]
   \<and> map arguments (filter is_install (calls (snd (serve all_succeed (noxfile Map.empty))))) =
     [[''--upgrade'', ''pip'', ''setuptools'', ''wheel''],
      [''mkdocs'', ''mkdocs-material'', ''mkdocs-include-markdown-plugin'']]
   \<and> [''GITHUB_TOKEN'' \<mapsto> ''tok'', ''CI'' \<mapsto> ''true''] ''GITHUB_TOKEN'' = Some ''tok''
   \<and> ''tok'' \<noteq> []
   \<and> map arguments (filter is_install
        (calls (snd (publish all_succeed
           (noxfile [''GITHUB_TOKEN'' \<mapsto> ''tok'', ''CI'' \<mapsto> ''true'']))))) =
     [[''--upgrade'', ''pip'', ''setuptools'', ''wheel''],
      [''mkdocs'', ''mkdocs-material'', ''mkdocs-include-markdown-plugin'']]
   \<and> filter (runs_program ''mkdocs'')
        (before (Install DOCS_DEPS)
           (calls (snd (publish all_succeed
              (noxfile [''GITHUB_TOKEN'' \<mapsto> ''tok'', ''CI'' \<mapsto> ''true'']))))) = []"
proof -
  let ?e = "[''GITHUB_TOKEN'' \<mapsto> ''tok'', ''CI'' \<mapsto> ''true'']"
  have h1: "?e ''GITHUB_TOKEN'' = Some ''tok''" by simp
  have h2: "''tok'' \<noteq> []" by simp
  have ok: "all_succeed (Install [''--upgrade'', ''pip'', ''setuptools'', ''wheel''])"
    by (simp add: all_succeed_def)
  have p: "publish = build \<or> publish = serve
           \<or> (publish = publish \<and> (\<exists>t. ?e ''GITHUB_TOKEN'' = Some t \<and> t \<noteq> []))"
    by simp
  from docs_deps_installed_first [of build Map.empty all_succeed]
       docs_deps_installed_first [of serve Map.empty all_succeed]
       docs_deps_installed_first [of publish ?e all_succeed, OF p] h1 h2 ok
  show ?thesis by blast
qed

text \<open>
  Claim C7, as stated (in every run of \<open>serve\<close> exactly one browser-open action
  occurs), fails in a run in which an install fails: the session ends at the first
  install and no browser is opened.
\<close>

theorem serve_opens_browser_counterexample:
  "calls (snd (serve pip_fails (noxfile Map.empty))) =
     [Install [''--upgrade'', ''pip'', ''setuptools'', ''wheel'']]
   \<and> filter is_browser (calls (snd (serve pip_fails (noxfile Map.empty)))) = []"
  by (simp add: serve_def statement_defs noxfile_def pip_fails_def)

text \<open>
  Claim C7, amended. In every run of \<open>serve\<close> the calls are an initial segment of:
  the two installs, the browser-open action on \<^verbatim>\<open>http://127.0.0.1:8000/spok/\<close>,
  \<^verbatim>\<open>mkdocs serve\<close>; so at most one browser-open action occurs, it targets that URL,
  and none occurs from the invocation of \<^verbatim>\<open>mkdocs serve\<close> on. In every run in
  which the two installs succeed, exactly one browser-open action occurs, it is among
  the calls made before \<^verbatim>\<open>mkdocs serve\<close> is invoked, and \<^verbatim>\<open>mkdocs serve\<close> is
  invoked once, as the last call.
\<close>

theorem serve_opens_browser_once_before_serving:
  "prefix (calls (snd (serve w (noxfile env))))
     [Install [''--upgrade'', ''pip'', ''setuptools'', ''wheel''],
      Install DOCS_DEPS,
      Browser ''http://127.0.0.1:8000/spok/'',
      Run [''mkdocs'', ''serve''] False]
   \<and> prefix (filter is_browser (calls (snd (serve w (noxfile env)))))
       [Browser ''http://127.0.0.1:8000/spok/'']
   \<and> filter is_browser
       (from_on (Run [''mkdocs'', ''serve''] False) (calls (snd (serve w (noxfile env))))) = []
   \<and> (w (Install [''--upgrade'', ''pip'', ''setuptools'', ''wheel''])
        \<and> w (Install DOCS_DEPS)
      \<longrightarrow> filter is_browser (calls (snd (serve w (noxfile env)))) =
            [Browser ''http://127.0.0.1:8000/spok/'']
          \<and> filter is_browser
              (before (Run [''mkdocs'', ''serve''] False)
                 (calls (snd (serve w (noxfile env))))) =
            [Browser ''http://127.0.0.1:8000/spok/'']
          \<and> filter (runs_subcommand ''mkdocs'' ''serve'')
              (calls (snd (serve w (noxfile env)))) =
            [Run [''mkdocs'', ''serve''] False]
          \<and> last (calls (snd (serve w (noxfile env)))) = Run [''mkdocs'', ''serve''] False)"
  by (simp add: serve_calls noxfile_simps before_def from_on_def)

theorem serve_opens_browser_once_before_serving_witness:
  "all_succeed (Install [''--upgrade'', ''pip'', ''setuptools'', ''wheel''])
   \<and> all_succeed (Install DOCS_DEPS)
   \<and> filter is_browser (calls (snd (serve all_succeed (noxfile [''CI'' \<mapsto> ''true''])))) =
       [Browser ''http://127.0.0.1:8000/spok/'']
   \<and> filter is_browser
       (before (Run [''mkdocs'', ''serve''] False)
          (calls (snd (serve all_succeed (noxfile [''CI'' \<mapsto> ''true'']))))) =
       [Browser ''http://127.0.0.1:8000/spok/'']
   \<and> filter is_browser
       (from_on (Run [''mkdocs'', ''serve''] False)
          (calls (snd (serve all_succeed (noxfile [''CI'' \<mapsto> ''true'']))))) = []"
proof -
  have ok: "all_succeed (Install [''--upgrade'', ''pip'', ''setuptools'', ''wheel''])
            \<and> all_succeed (Install DOCS_DEPS)"
    by (simp add: all_succeed_def)
  from serve_opens_browser_once_before_serving [of all_succeed "[''CI'' \<mapsto> ''true'']"] ok
  show ?thesis by blast
qed

text \<open>
  Claim C8, as stated (in every run of \<open>build\<close> the build subcommand is invoked
  exactly once), fails in a run in which an install fails: the session ends at the
  first install with \<open>CommandFailed\<close> and \<^verbatim>\<open>mkdocs\<close> is never invoked.
\<close>

theorem build_runs_generator_counterexample:
  "calls (snd (build pip_fails (noxfile Map.empty))) =
     [Install [''--upgrade'', ''pip'', ''setuptools'', ''wheel'']]
   \<and> filter (runs_program ''mkdocs'') (calls (snd (build pip_fails (noxfile Map.empty)))) = []
   \<and> fst (build pip_fails (noxfile Map.empty)) = Inl CommandFailed"
  by (simp add: build_def statement_defs noxfile_def pip_fails_def)

text \<open>
  Claim C8, amended. In every run of \<open>build\<close> the calls are an initial segment of:
  the two installs, \<^verbatim>\<open>mkdocs build --clean\<close>; so the only \<^verbatim>\<open>mkdocs\<close> command
  that can be invoked is \<^verbatim>\<open>mkdocs build --clean\<close>, at most once, and \<open>build\<close>
  invokes no \<^verbatim>\<open>mkdocs serve\<close>, opens no browser and invokes no \<^verbatim>\<open>git\<close> command.
  In every run in which the two installs succeed, \<^verbatim>\<open>mkdocs build --clean\<close> is
  invoked exactly once, as the last call. \<open>build\<close> returns normally exactly when
  all three commands succeed.
\<close>

theorem build_runs_generator_once:
  "prefix (calls (snd (build w (noxfile env))))
     [Install [''--upgrade'', ''pip'', ''setuptools'', ''wheel''],
      Install DOCS_DEPS,
      Run [''mkdocs'', ''build'', ''--clean''] False]
   \<and> prefix (filter (runs_program ''mkdocs'') (calls (snd (build w (noxfile env)))))
       [Run [''mkdocs'', ''build'', ''--clean''] False]
   \<and> filter (runs_subcommand ''mkdocs'' ''serve'') (calls (snd (build w (noxfile env)))) = []
   \<and> filter is_browser (calls (snd (build w (noxfile env)))) = []
   \<and> filter (runs_program ''git'') (calls (snd (build w (noxfile env)))) = []
   \<and> (w (Install [''--upgrade'', ''pip'', ''setuptools'', ''wheel''])
        \<and> w (Install DOCS_DEPS)
      \<longrightarrow> filter (runs_program ''mkdocs'') (calls (snd (build w (noxfile env)))) =
            [Run [''mkdocs'', ''build'', ''--clean''] False]
          \<and> last (calls (snd (build w (noxfile env)))) =
            Run [''mkdocs'', ''build'', ''--clean''] False)
   \<and> (fst (build w (noxfile env)) = Inr () \<longleftrightarrow>
        w (Install [''--upgrade'', ''pip'', ''setuptools'', ''wheel''])
        \<and> w (Install DOCS_DEPS)
        \<and> w (Run [''mkdocs'', ''build'', ''--clean''] False))"
  by (simp add: build_calls build_result noxfile_simps)

theorem build_runs_generator_once_witness:
  "all_succeed (Install [''--upgrade'', ''pip'', ''setuptools'', ''wheel''])
   \<and> all_succeed (Install DOCS_DEPS)
   \<and> filter (runs_program ''mkdocs'') (calls (snd (build all_succeed (noxfile Map.empty)))) =
       [Run [''mkdocs'', ''build'', ''--clean''] False]
   \<and> filter is_browser (calls (snd (build all_succeed (noxfile Map.empty)))) = []
   \<and> filter (runs_program ''git'') (calls (snd (build all_succeed (noxfile Map.empty)))) = []"
proof -
  have ok: "all_succeed (Install [''--upgrade'', ''pip'', ''setuptools'', ''wheel''])
            \<and> all_succeed (Install DOCS_DEPS)"
    by (simp add: all_succeed_def)
  from build_runs_generator_once [of all_succeed Map.empty] ok
  show ?thesis by blast
qed

text \<open>
  Claim C9. Whatever the environment at import, \<^verbatim>\<open>nox.options.sessions\<close> is
  \<^verbatim>\<open>("serve",)\<close>; so the runner, invoked without a session name, does what it
  does when \<^verbatim>\<open>serve\<close> alone is named: it runs \<open>serve\<close> and nothing else, and
  its exit status is 0 exactly when \<open>serve\<close> returns normally.
\<close>

theorem default_session_is_serve:
  "options_sessions (noxfile env) = [''serve'']
   \<and> nox w None env = nox w (Some [''serve'']) env
   \<and> snd (nox w None env) = snd (serve w (noxfile env))
   \<and> fst (nox w None env) = (if fst (serve w (noxfile env)) = Inr () then 0 else 1)
   \<and> prefix (calls (snd (nox w None env)))
       [Install [''--upgrade'', ''pip'', ''setuptools'', ''wheel''],
        Install DOCS_DEPS,
        Browser ''http://127.0.0.1:8000/spok/'',
        Run [''mkdocs'', ''serve''] False]"
proof -
  have sel: "options_sessions (noxfile env) = [''serve'']"
    by (simp add: noxfile_simps)
  have col: "collect (selected_once [''serve'']) = Some [serve]"
    by (simp add: selected_once_def registered_def)
  have run: "run_all w [serve] (noxfile env) =
               (fst (serve w (noxfile env)) = Inr (), snd (serve w (noxfile env)))"
  proof (cases "serve w (noxfile env)")
    case (Pair r p')
    have "isl r = False \<longleftrightarrow> r = Inr ()" by (cases r) simp_all
    with Pair show ?thesis by simp
  qed
  have dflt: "nox w None env =
               (if fst (serve w (noxfile env)) = Inr () then 0 else 1,
                snd (serve w (noxfile env)))"
    by (simp add: nox_def Let_def sel col run del: collect.simps run_all.simps)
  have named: "nox w (Some [''serve'']) env =
               (if fst (serve w (noxfile env)) = Inr () then 0 else 1,
                snd (serve w (noxfile env)))"
    by (simp add: nox_def Let_def col run del: collect.simps run_all.simps)
  have "prefix (calls (snd (serve w (noxfile env))))
       [Install [''--upgrade'', ''pip'', ''setuptools'', ''wheel''],
        Install DOCS_DEPS,
        Browser ''http://127.0.0.1:8000/spok/'',
        Run [''mkdocs'', ''serve''] False]"
    by (simp add: serve_calls noxfile_simps)
  with sel dflt named show ?thesis by simp
qed

theorem default_session_is_serve_witness:
  "nox all_succeed None [''CI'' \<mapsto> ''true'', ''GITHUB_TOKEN'' \<mapsto> ''tok''] =
     nox all_succeed (Some [''serve'']) [''CI'' \<mapsto> ''true'', ''GITHUB_TOKEN'' \<mapsto> ''tok'']
   \<and> snd (nox all_succeed None [''CI'' \<mapsto> ''true'', ''GITHUB_TOKEN'' \<mapsto> ''tok'']) =
     snd (serve all_succeed (noxfile [''CI'' \<mapsto> ''true'', ''GITHUB_TOKEN'' \<mapsto> ''tok'']))"
  using default_session_is_serve
          [of "[''CI'' \<mapsto> ''true'', ''GITHUB_TOKEN'' \<mapsto> ''tok'']" all_succeed]
  by blast

text \<open>
  Claim C10. For two environments that agree on every variable other than \<^verbatim>\<open>CI\<close>
  and \<^verbatim>\<open>GITHUB_TOKEN\<close>, and the same outcome of the invoked tools, \<open>build\<close>
  gives the same result and makes the same sequence of calls in both, and so does
  \<open>serve\<close>.
\<close>

theorem build_serve_ignore_ci_and_token:
  assumes "\<forall>k. k \<noteq> ''CI'' \<and> k \<noteq> ''GITHUB_TOKEN'' \<longrightarrow> env1 k = env2 k"
  shows "fst (build w (noxfile env1)) = fst (build w (noxfile env2))
       \<and> calls (snd (build w (noxfile env1))) = calls (snd (build w (noxfile env2)))
       \<and> fst (serve w (noxfile env1)) = fst (serve w (noxfile env2))
       \<and> calls (snd (serve w (noxfile env1))) = calls (snd (serve w (noxfile env2)))"
  by (simp add: build_calls build_result serve_calls serve_result noxfile_simps)

theorem build_serve_ignore_ci_and_token_witness:
  "[''HOME'' \<mapsto> ''/root''] ''HOME''
     = [''HOME'' \<mapsto> ''/root'', ''CI'' \<mapsto> ''true'', ''GITHUB_TOKEN'' \<mapsto> ''tok''] ''HOME''
   \<and> [''HOME'' \<mapsto> ''/root''] ''CI''
     \<noteq> [''HOME'' \<mapsto> ''/root'', ''CI'' \<mapsto> ''true'', ''GITHUB_TOKEN'' \<mapsto> ''tok''] ''CI''
   \<and> calls (snd (build git_fails (noxfile [''HOME'' \<mapsto> ''/root''])))
     = calls (snd (build git_fails (noxfile
         [''HOME'' \<mapsto> ''/root'', ''CI'' \<mapsto> ''true'', ''GITHUB_TOKEN'' \<mapsto> ''tok''])))
   \<and> calls (snd (serve git_fails (noxfile [''HOME'' \<mapsto> ''/root''])))
     = calls (snd (serve git_fails (noxfile
         [''HOME'' \<mapsto> ''/root'', ''CI'' \<mapsto> ''true'', ''GITHUB_TOKEN'' \<mapsto> ''tok''])))"
proof -
  let ?e1 = "[''HOME'' \<mapsto> ''/root'']"
  let ?e2 = "[''HOME'' \<mapsto> ''/root'', ''CI'' \<mapsto> ''true'', ''GITHUB_TOKEN'' \<mapsto> ''tok'']"
  have h: "\<forall>k. k \<noteq> ''CI'' \<and> k \<noteq> ''GITHUB_TOKEN'' \<longrightarrow> ?e1 k = ?e2 k"
    by simp
  from build_serve_ignore_ci_and_token [of ?e1 ?e2 git_fails, OF h] show ?thesis by simp
qed

end
